theory Spec2Isabelle
  imports Main "HOL-Library.Sublist"
begin

section \<open>Strings\<close>

text \<open>
  A Python \<open>str\<close> is modelled as a \<open>string\<close>; a \<open>char\<close> stands for the code point
  of the same number, so the model covers the code points below 256.
\<close>

definition newline :: char where
  "newline = CHR 0x0A"

definition squote :: char where
  "squote = CHR 0x27"

definition dquote :: char where
  "dquote = CHR 0x22"

definition backslash :: char where
  "backslash = CHR 0x5C"

definition escape_char :: char where
  "escape_char = CHR 0x1B"

text \<open>\<open>str.isspace\<close> on one code point below 256.\<close>

definition isspace :: "char \<Rightarrow> bool" where
  "isspace c =
     (let n = (of_char c :: nat)
      in (9 \<le> n \<and> n \<le> 13) \<or> (28 \<le> n \<and> n \<le> 32) \<or> n = 133 \<or> n = 160)"

text \<open>\<open>str.strip()\<close>: leading and trailing whitespace removed.\<close>

definition strip :: "string \<Rightarrow> string" where
  "strip s = rev (dropWhile isspace (rev (dropWhile isspace s)))"

text \<open>\<open>str.lower()\<close>: below 256 the upper-case letters are A-Z and 0xC0-0xDE without 0xD7.\<close>

definition lower_char :: "char \<Rightarrow> char" where
  "lower_char c =
     (let n = (of_char c :: nat)
      in if (65 \<le> n \<and> n \<le> 90) \<or> (192 \<le> n \<and> n \<le> 222 \<and> n \<noteq> 215)
         then char_of (n + 32) else c)"

definition lower :: "string \<Rightarrow> string" where
  "lower s = map lower_char s"

definition startswith :: "string \<Rightarrow> string \<Rightarrow> bool" where
  "startswith s p = (take (length p) s = p)"

section \<open>shlex.split\<close>

text \<open>
  \<open>shlex.split(s)\<close> builds \<open>shlex(s, posix=True)\<close> with \<open>whitespace_split = True\<close> and
  \<open>commenters = ''\<close> and collects the tokens of \<open>read_token\<close>. The lexer state
  \<open>self.state\<close> is \<open>' '\<close>, \<open>'a'\<close>, a quote character, or the escape character (with
  \<open>escapedstate\<close> the state to go back to).
\<close>

datatype shlex_error = No_closing_quotation | No_escaped_character

fun shlex_error_str :: "shlex_error \<Rightarrow> string" where
  "shlex_error_str No_closing_quotation = ''No closing quotation''"
| "shlex_error_str No_escaped_character = ''No escaped character''"

datatype lex_state = St_space | St_word | St_quote char | St_escape lex_state

definition whitespace :: "char set" where
  "whitespace = {CHR '' '', CHR 0x09, CHR 0x0D, CHR 0x0A}"

definition quotes :: "char set" where
  "quotes = {squote, dquote}"

definition escapedquotes :: "char set" where
  "escapedquotes = {dquote}"

fun emit :: "string \<Rightarrow> shlex_error + string list \<Rightarrow> shlex_error + string list" where
  "emit tok (Inl e) = Inl e"
| "emit tok (Inr toks) = Inr (tok # toks)"

text \<open>
  In an escape inside quotes only the quote itself and the escape character are escaped:
  before any other character the backslash is kept.
\<close>

fun escaped :: "lex_state \<Rightarrow> char \<Rightarrow> string" where
  "escaped (St_quote qc) c = (if c \<noteq> backslash \<and> c \<noteq> qc then [backslash, c] else [c])"
| "escaped _ c = [c]"

text \<open>
  \<open>read_tokens state token quoted input\<close> runs \<open>read_token\<close> over the rest of the input
  and, at each \<open>break\<close>, emits the token and starts the next call with an empty token
  and \<open>quoted = False\<close>. In the state \<open>' '\<close> the branch for \<open>wordchars\<close> and the last
  branch (\<open>whitespace_split\<close>) do the same, and neither the escape nor a quote is a word
  character, so they are one branch here.
\<close>

fun read_tokens :: "lex_state \<Rightarrow> string \<Rightarrow> bool \<Rightarrow> string \<Rightarrow> shlex_error + string list" where
  "read_tokens St_space tok quoted [] = (if tok = [] \<and> \<not> quoted then Inr [] else Inr [tok])"
| "read_tokens St_space tok quoted (c # cs) =
     (if c \<in> whitespace then
        (if tok = [] \<and> \<not> quoted then read_tokens St_space tok quoted cs
         else emit tok (read_tokens St_space [] False cs))
      else if c = backslash then read_tokens (St_escape St_word) tok quoted cs
      else if c \<in> quotes then read_tokens (St_quote c) tok quoted cs
      else read_tokens St_word [c] quoted cs)"
| "read_tokens (St_quote qc) tok quoted [] = Inl No_closing_quotation"
| "read_tokens (St_quote qc) tok quoted (c # cs) =
     (if c = qc then read_tokens St_word tok True cs
      else if c = backslash \<and> qc \<in> escapedquotes then read_tokens (St_escape (St_quote qc)) tok True cs
      else read_tokens (St_quote qc) (tok @ [c]) True cs)"
| "read_tokens (St_escape es) tok quoted [] = Inl No_escaped_character"
| "read_tokens (St_escape es) tok quoted (c # cs) = read_tokens es (tok @ escaped es c) quoted cs"
| "read_tokens St_word tok quoted [] = (if tok = [] \<and> \<not> quoted then Inr [] else Inr [tok])"
| "read_tokens St_word tok quoted (c # cs) =
     (if c \<in> whitespace then
        (if tok = [] \<and> \<not> quoted then read_tokens St_space tok quoted cs
         else emit tok (read_tokens St_space [] False cs))
      else if c \<in> quotes then read_tokens (St_quote c) tok quoted cs
      else if c = backslash then read_tokens (St_escape St_word) tok quoted cs
      else read_tokens St_word (tok @ [c]) quoted cs)"

definition shlex_split :: "string \<Rightarrow> shlex_error + string list" where
  "shlex_split s = read_tokens St_space [] False s"

section \<open>The argument parser\<close>

text \<open>
  \<open>create_parser\<close> builds an \<open>argparse.ArgumentParser(add_help=False)\<close> with the
  options \<open>-h/--help\<close> and \<open>-v/--version\<close> (\<open>store_true\<close>, no argument) and
  \<open>-p/--prompt\<close> (\<open>store\<close>, one argument, \<open>type=str\<close>). What follows is
  \<open>ArgumentParser.parse_args\<close> of CPython 3.11 for this parser: no positional
  arguments, no mutually exclusive groups, \<open>prefix_chars = '-'\<close>, abbreviations allowed.
  Every failure of the parser ends in \<open>ArgumentParser.error\<close>, which writes the usage
  and the message to standard error and raises \<open>SystemExit(2)\<close>.
\<close>

datatype action = Help | Version | Prompt

datatype argparse_error =
    Ambiguous_option string "string list"
  | Unexpected_option_string string
  | Ignored_explicit_argument action string
  | Expected_one_argument action
  | Unrecognized_arguments "string list"

record namespace =
  arg_help :: bool
  arg_version :: bool
  arg_prompt :: "string option"

definition prefix_chars :: "char set" where
  "prefix_chars = {CHR ''-''}"

text \<open>\<open>self._option_string_actions\<close>, in the order the options were added.\<close>

definition option_string_actions :: "(string \<times> action) list" where
  "option_string_actions =
     [(''-h'', Help), (''--help'', Help),
      (''-v'', Version), (''--version'', Version),
      (''-p'', Prompt), (''--prompt'', Prompt)]"

text \<open>The number of arguments an option takes: \<open>nargs = 0\<close> or \<open>nargs = None\<close> (one).\<close>

fun takes_argument :: "action \<Rightarrow> bool" where
  "takes_argument Help = False"
| "takes_argument Version = False"
| "takes_argument Prompt = True"

text \<open>An option tuple is \<open>(action, option_string, sep, explicit_arg)\<close>.\<close>

type_synonym option_tuple = "action option \<times> string \<times> string option \<times> string option"

text \<open>\<open>str.partition('=')\<close>; the separator is empty when there is no \<open>=\<close>.\<close>

definition partition_eq :: "string \<Rightarrow> string \<times> string \<times> string" where
  "partition_eq s =
     (case dropWhile (\<lambda>c. c \<noteq> CHR ''='') s of
        [] \<Rightarrow> (s, [], [])
      | _ # after \<Rightarrow> (takeWhile (\<lambda>c. c \<noteq> CHR ''='') s, ''='', after))"

definition is_digit :: "char \<Rightarrow> bool" where
  "is_digit c = (let n = (of_char c :: nat) in 48 \<le> n \<and> n \<le> 57)"

text \<open>
  \<open>self._negative_number_matcher\<close> is the regular expression \<open>^-\d+$|^-\d*\.\d+$\<close>;
  \<open>$\<close> also matches before a newline that ends the string.
\<close>

definition negative_number_matcher :: "string \<Rightarrow> bool" where
  "negative_number_matcher s =
     (case s of
        [] \<Rightarrow> False
      | c # rest \<Rightarrow>
          c = CHR ''-'' \<and>
          (let body = (if rest \<noteq> [] \<and> last rest = newline then butlast rest else rest)
           in (body \<noteq> [] \<and> list_all is_digit body) \<or>
              (case dropWhile is_digit body of
                 [] \<Rightarrow> False
               | d # frac \<Rightarrow> d = CHR ''.'' \<and> frac \<noteq> [] \<and> list_all is_digit frac)))"

text \<open>
  \<open>_get_option_tuples\<close>: every option a string may abbreviate. \<open>_parse_optional\<close>
  calls it only on strings of at least two characters that start with a prefix
  character, so the error branches are never reached.
\<close>

fun get_option_tuples :: "string \<Rightarrow> argparse_error + option_tuple list" where
  "get_option_tuples (c0 # c1 # rest) =
     (if c0 \<in> prefix_chars \<and> c1 \<in> prefix_chars then
        (let (option_prefix, sep, explicit_arg) = partition_eq (c0 # c1 # rest)
         in Inr (map (\<lambda>(option_string, action).
                        (Some action, option_string,
                         if sep = [] then None else Some sep,
                         if sep = [] then None else Some explicit_arg))
                  (filter (\<lambda>(option_string, action). startswith option_string option_prefix)
                     option_string_actions)))
      else if c0 \<in> prefix_chars \<and> c1 \<notin> prefix_chars then
        Inr (concat (map (\<lambda>(option_string, action).
                 if option_string = [c0, c1] then [(Some action, option_string, Some [], Some rest)]
                 else if startswith option_string (c0 # c1 # rest)
                   then [(Some action, option_string, None, None)]
                 else [])
               option_string_actions))
      else Inl (Unexpected_option_string (c0 # c1 # rest)))"
| "get_option_tuples option_string = Inl (Unexpected_option_string option_string)"

text \<open>
  \<open>_parse_optional\<close>: \<open>None\<close> for a positional argument, an option tuple for an option
  (with no action when the option is unknown).
\<close>

definition parse_optional :: "string \<Rightarrow> argparse_error + option_tuple option" where
  "parse_optional arg_string =
     (case arg_string of
        [] \<Rightarrow> Inr None
      | c # _ \<Rightarrow>
          if c \<notin> prefix_chars then Inr None
          else (case map_of option_string_actions arg_string of
              Some action \<Rightarrow> Inr (Some (Some action, arg_string, None, None))
            | None \<Rightarrow>
                if length arg_string = 1 then Inr None
                else
                  (let (option_string, sep, explicit_arg) = partition_eq arg_string
                   in case (if sep \<noteq> [] then map_of option_string_actions option_string else None) of
                        Some action \<Rightarrow> Inr (Some (Some action, option_string, Some sep, Some explicit_arg))
                      | None \<Rightarrow>
                          (case get_option_tuples arg_string of
                             Inl e \<Rightarrow> Inl e
                           | Inr option_tuples \<Rightarrow>
                               if length option_tuples > 1 then
                                 Inl (Ambiguous_option arg_string (map (\<lambda>t. fst (snd t)) option_tuples))
                               else (case option_tuples of
                                  [option_tuple] \<Rightarrow> Inr (Some option_tuple)
                                | _ \<Rightarrow>
                                   if negative_number_matcher arg_string then Inr None
                                   else if CHR '' '' \<in> set arg_string then Inr None
                                   else Inr (Some (None, arg_string, None, None)))))))"

text \<open>
  The pattern of the argument strings: \<open>A\<close> for an argument, \<open>O\<close> for an option (kept
  with its option tuple, as \<open>option_string_indices\<close> does), \<open>-\<close> for \<open>--\<close>; everything
  after \<open>--\<close> is an argument.
\<close>

datatype pattern = Pat_A | Pat_O option_tuple | Pat_dash

fun arg_strings_pattern :: "string list \<Rightarrow> argparse_error + (string \<times> pattern) list" where
  "arg_strings_pattern [] = Inr []"
| "arg_strings_pattern (arg_string # arg_strings) =
     (if arg_string = ''--'' then
        Inr ((arg_string, Pat_dash) # map (\<lambda>a. (a, Pat_A)) arg_strings)
      else (case parse_optional arg_string of
          Inl e \<Rightarrow> Inl e
        | Inr option_tuple \<Rightarrow>
            (case arg_strings_pattern arg_strings of
               Inl e \<Rightarrow> Inl e
             | Inr parts \<Rightarrow>
                 Inr ((arg_string, case option_tuple of None \<Rightarrow> Pat_A | Some t \<Rightarrow> Pat_O t) # parts))))"

text \<open>
  \<open>_match_argument\<close> for an option: the pattern \<open>(A)\<close> for one argument, \<open>()\<close> for none,
  matched at the start of the patterns that follow.
\<close>

fun match_argument :: "action \<Rightarrow> pattern list \<Rightarrow> argparse_error + nat" where
  "match_argument action pats =
     (if takes_argument action then
        (case pats of Pat_A # _ \<Rightarrow> Inr 1 | _ \<Rightarrow> Inl (Expected_one_argument action))
      else Inr 0)"

text \<open>
  The second character of an option string is a prefix character for a long option.
  Option strings of the parser have at least two characters.
\<close>

fun single_dash :: "string \<Rightarrow> bool" where
  "single_dash (c0 # c1 # _) = (c1 \<notin> prefix_chars)"
| "single_dash _ = False"

text \<open>
  The loop of \<open>consume_optional\<close>. The result is the list \<open>action_tuples\<close> (the actions
  to take, each with its arguments), what is appended to \<open>extras\<close>, and how many of the
  following argument strings the option used.
\<close>

function consume_optional ::
  "action option \<Rightarrow> string \<Rightarrow> string option \<Rightarrow> string option \<Rightarrow> string \<Rightarrow> (string \<times> pattern) list \<Rightarrow>
   (action \<times> string list) list \<Rightarrow> argparse_error + ((action \<times> string list) list \<times> string list \<times> nat)"
where
  "consume_optional None option_string sep explicit_arg arg_string following action_tuples =
     Inr ([], [arg_string], 0)"
| "consume_optional (Some action) option_string sep None arg_string following action_tuples =
     (case match_argument action (map snd following) of
        Inl e \<Rightarrow> Inl e
      | Inr arg_count \<Rightarrow>
          Inr (action_tuples @ [(action, take arg_count (map fst following))], [], arg_count))"
| "consume_optional (Some action) option_string sep (Some explicit_arg) arg_string following action_tuples =
     (case explicit_arg of
        c # rest \<Rightarrow>
          if \<not> takes_argument action \<and> single_dash option_string then
            (if (sep \<noteq> None \<and> sep \<noteq> Some []) \<or> c \<in> prefix_chars then
               Inl (Ignored_explicit_argument action explicit_arg)
             else
               (case map_of option_string_actions [hd option_string, c] of
                  Some action' \<Rightarrow>
                    (case rest of
                       [] \<Rightarrow>
                         consume_optional (Some action') [hd option_string, c] None None
                           arg_string following (action_tuples @ [(action, [])])
                     | r # rest' \<Rightarrow>
                         if r = CHR ''='' then
                           consume_optional (Some action') [hd option_string, c] (Some ''='') (Some rest')
                             arg_string following (action_tuples @ [(action, [])])
                         else
                           consume_optional (Some action') [hd option_string, c] (Some []) (Some rest)
                             arg_string following (action_tuples @ [(action, [])]))
                | None \<Rightarrow>
                    Inr (action_tuples @ [(action, [])], [hd option_string # explicit_arg], 0)))
          else if takes_argument action then
            Inr (action_tuples @ [(action, [explicit_arg])], [], 0)
          else Inl (Ignored_explicit_argument action explicit_arg)
      | [] \<Rightarrow>
          if takes_argument action then
            Inr (action_tuples @ [(action, [explicit_arg])], [], 0)
          else Inl (Ignored_explicit_argument action explicit_arg))"
  by pat_completeness auto
termination
  by (relation "measure (\<lambda>(a, os, sep, ea, s, f, ats). case ea of None \<Rightarrow> 0 | Some e \<Rightarrow> Suc (length e))") auto

text \<open>
  \<open>take_action\<close>: the \<open>store_true\<close> and \<open>store\<close> actions on the namespace. The
  \<open>store\<close> action of \<open>-p\<close> always comes with exactly one argument.
\<close>

fun take_action :: "namespace \<Rightarrow> action \<times> string list \<Rightarrow> namespace" where
  "take_action ns (Help, _) = ns\<lparr>arg_help := True\<rparr>"
| "take_action ns (Version, _) = ns\<lparr>arg_version := True\<rparr>"
| "take_action ns (Prompt, [v]) = ns\<lparr>arg_prompt := Some v\<rparr>"
| "take_action ns (Prompt, _) = ns"

text \<open>
  The main loop of \<open>_parse_known_args\<close>. With no positional arguments
  \<open>consume_positionals\<close> consumes nothing, so every argument string that is not an
  option and is not used by an option goes to \<open>extras\<close>, in order.
\<close>

function consume :: "(string \<times> pattern) list \<Rightarrow> namespace \<Rightarrow> string list \<Rightarrow>
    argparse_error + (namespace \<times> string list)" where
  "consume [] ns extras = Inr (ns, extras)"
| "consume ((arg_string, Pat_A) # following) ns extras = consume following ns (extras @ [arg_string])"
| "consume ((arg_string, Pat_dash) # following) ns extras = consume following ns (extras @ [arg_string])"
| "consume ((arg_string, Pat_O (action, option_string, sep, explicit_arg)) # following) ns extras =
     (case consume_optional action option_string sep explicit_arg arg_string following [] of
        Inl e \<Rightarrow> Inl e
      | Inr (action_tuples, unused, arg_count) \<Rightarrow>
          consume (drop arg_count following) (foldl take_action ns action_tuples) (extras @ unused))"
  by pat_completeness auto
termination
  by (relation "measure (\<lambda>(ps, ns, extras). length ps)") auto

definition default_namespace :: namespace where
  "default_namespace = \<lparr>arg_help = False, arg_version = False, arg_prompt = None\<rparr>"

definition parse_args :: "string list \<Rightarrow> argparse_error + namespace" where
  "parse_args args =
     (case arg_strings_pattern args of
        Inl e \<Rightarrow> Inl e
      | Inr parts \<Rightarrow>
          (case consume parts default_namespace [] of
             Inl e \<Rightarrow> Inl e
           | Inr (ns, argv) \<Rightarrow> if argv \<noteq> [] then Inl (Unrecognized_arguments argv) else Inr ns))"

section \<open>The interactive program\<close>

text \<open>
  What the program does to the terminal, in order. \<open>Write\<close>, \<open>Flush\<close> and \<open>Sleep\<close> are
  \<open>sys.stdout.write\<close>, \<open>sys.stdout.flush\<close> and \<open>time.sleep(delay)\<close> (the delay is the
  default everywhere); \<open>Print\<close> is \<open>print\<close>, the text and a newline at once;
  \<open>Input_prompt\<close> is the prompt \<open>input\<close> writes before it reads; \<open>Usage_error\<close> is the
  usage and the message \<open>ArgumentParser.error\<close> writes to standard error.
\<close>

datatype event =
    Write string
  | Flush
  | Sleep
  | Print string
  | Input_prompt string
  | Usage_error argparse_error

record session =
  prompt :: string
  version :: string
  running :: bool

text \<open>\<open>InteractiveCLI.__init__\<close>; the parser is the same for every session.\<close>

definition init :: "string \<Rightarrow> string \<Rightarrow> session" where
  "init p v = \<lparr>prompt = p, version = v, running = False\<rparr>"

definition typewriter_effect :: "string \<Rightarrow> event list" where
  "typewriter_effect text = concat (map (\<lambda>c. [Write [c], Flush, Sleep]) text) @ [Print []]"

definition echo_input :: "string \<Rightarrow> event list" where
  "echo_input user_input =
     [Print ([escape_char] @ ''[3m'' @ [escape_char] @ ''[90mUser: '' @ user_input @ [escape_char] @ ''[0m'')]"

definition show_version :: "session \<Rightarrow> event list" where
  "show_version s = typewriter_effect (''Interactive CLI Version '' @ version s)"

definition help_text :: string where
  "help_text = newline # concat (map (\<lambda>l. l @ [newline])
     [''Available commands:'',
      ''  help                  - Show this help message'',
      ''  version               - Show program version'',
      ''  exit/quit             - Exit the program'',
      ''  python script.py [options] - Execute as command line args'',
      ''Options:'',
      ''  -h, --help           - Show help'',
      ''  -v, --version        - Show version'',
      ''  -p PROMPT, --prompt PROMPT - Change prompt temporarily''])"

definition show_help :: "event list" where
  "show_help = typewriter_effect help_text"

text \<open>
  The \<open>if\<close>/\<open>elif\<close> chain of \<open>handle_cli_args\<close> on a parsed namespace. The test
  \<open>elif args.prompt\<close> is Python's truth value: false for \<open>None\<close> and for the empty
  string.
\<close>

definition dispatch :: "session \<Rightarrow> namespace \<Rightarrow> session \<times> event list" where
  "dispatch s args =
     (if arg_help args then (s, show_help)
      else if arg_version args then (s, show_version s)
      else (case arg_prompt args of
              None \<Rightarrow> (s, [])
            | Some p \<Rightarrow>
                if p = [] then (s, [])
                else
                  (s\<lparr>prompt := p\<rparr>,
                   typewriter_effect (''Prompt changed from '' @ [squote] @ prompt s @ [squote] @
                                      '' to '' @ [squote] @ p @ [squote]))))"

text \<open>
  \<open>handle_cli_args\<close>: \<open>SystemExit\<close> (the parser's failure) is caught and passed over;
  any other exception (the \<open>ValueError\<close> of \<open>shlex.split\<close>) is printed.
\<close>

definition handle_cli_args :: "session \<Rightarrow> string \<Rightarrow> session \<times> event list" where
  "handle_cli_args s args_str =
     (case shlex_split args_str of
        Inl e \<Rightarrow> (s, typewriter_effect (''Error parsing arguments: '' @ shlex_error_str e))
      | Inr toks \<Rightarrow>
          (case parse_args (drop 2 toks) of
             Inl err \<Rightarrow> (s, [Usage_error err])
           | Inr args \<Rightarrow> dispatch s args))"

definition process_input :: "string \<Rightarrow> string" where
  "process_input user_input = ''System: You said '' @ [squote] @ user_input @ [squote]"

text \<open>
  What \<open>input(self.prompt)\<close> gives: a line, or \<open>KeyboardInterrupt\<close> raised while it
  waits. The end of the input stream, \<open>EOFError\<close>, is the end of the list of inputs.
\<close>

datatype input = Line string | KeyboardInterrupt

text \<open>One pass through the body of the \<open>while\<close> loop of \<open>start\<close>; \<open>None\<close> is \<open>EOFError\<close>.\<close>

fun iteration :: "session \<Rightarrow> input option \<Rightarrow> session \<times> event list" where
  "iteration s (Some (Line l)) =
     (let user_input = strip l
      in if user_input = [] then (s, [Input_prompt (prompt s)])
         else if startswith user_input ''python script.py'' then
           (case handle_cli_args s user_input of
              (s', out) \<Rightarrow> (s', Input_prompt (prompt s) # echo_input user_input @ out))
         else if lower user_input \<in> set [''exit'', ''quit''] then
           (s\<lparr>running := False\<rparr>,
            Input_prompt (prompt s) # echo_input user_input @ typewriter_effect ''Goodbye!'')
         else if lower user_input = ''version'' then
           (s, Input_prompt (prompt s) # echo_input user_input @ show_version s)
         else if lower user_input = ''help'' then
           (s, Input_prompt (prompt s) # echo_input user_input @ show_help)
         else
           (s, Input_prompt (prompt s) # echo_input user_input @
               typewriter_effect (process_input user_input)))"
| "iteration s (Some KeyboardInterrupt) =
     (s, Input_prompt (prompt s) #
         typewriter_effect (newline # ''Use 'exit' or 'quit' to end the session.''))"
| "iteration s None =
     (s\<lparr>running := False\<rparr>,
      Input_prompt (prompt s) # typewriter_effect (newline # ''Goodbye!''))"

text \<open>
  The loop \<open>while self.running\<close>. At the end of the inputs the pass is the one of
  \<open>EOFError\<close>, which clears \<open>running\<close>, so the loop stops after it.
\<close>

fun run_loop :: "session \<Rightarrow> input list \<Rightarrow> session \<times> event list" where
  "run_loop s [] = (if running s then iteration s None else (s, []))"
| "run_loop s (i # inputs) =
     (if running s then
        (case iteration s (Some i) of
           (s', out) \<Rightarrow> (case run_loop s' inputs of (s'', out') \<Rightarrow> (s'', out @ out')))
      else (s, []))"

definition start :: "session \<Rightarrow> input list \<Rightarrow> session \<times> event list" where
  "start s inputs =
     (case run_loop (s\<lparr>running := True\<rparr>) inputs of
        (s', out) \<Rightarrow>
          (s', typewriter_effect (''Interactive CLI (Version '' @ version s @ '')'') @
               typewriter_effect ''Type 'help' for available commands.'' @ out))"

definition usage_lines :: "string list" where
  "usage_lines =
     [''Usage: python script.py [options]'',
      ''Options:'',
      ''  -h, --help     show this help message and exit'',
      ''  -v, --version  show program's version number and exit'',
      ''  -p PROMPT, --prompt PROMPT'',
      ''                set the command prompt (default: '> ')'']"

text \<open>
  \<open>main\<close> on the arguments of the process (\<open>sys.argv[1:]\<close>) and the inputs of the
  session: what is written, and the exit status of the process. A failure of the parser
  is not caught here: the process ends with status 2. \<open>if args.prompt\<close> is again the
  truth value of the prompt.
\<close>

definition main :: "string list \<Rightarrow> input list \<Rightarrow> event list \<times> nat" where
  "main argv inputs =
     (let cli = init ''> '' ''1.0.0''
      in case parse_args argv of
           Inl err \<Rightarrow> ([Usage_error err], 2)
         | Inr args \<Rightarrow>
             if arg_help args then (map Print usage_lines, 0)
             else if arg_version args then (show_version cli, 0)
             else (case start (case arg_prompt args of
                                 None \<Rightarrow> cli
                               | Some p \<Rightarrow> if p = [] then cli else cli\<lparr>prompt := p\<rparr>) inputs of
                     (s', out) \<Rightarrow> (out, 0)))"

text \<open>
  An input that ends the session: a line that reaches the \<open>exit\<close>/\<open>quit\<close> branch of the
  loop.
\<close>

fun is_exit :: "input \<Rightarrow> bool" where
  "is_exit (Line l) =
     (let user_input = strip l
      in user_input \<noteq> [] \<and> \<not> startswith user_input ''python script.py'' \<and>
         lower user_input \<in> set [''exit'', ''quit''])"
| "is_exit KeyboardInterrupt = False"

text \<open>
  The session as \<open>main\<close> creates it with no arguments, once \<open>start\<close> has set \<open>running\<close>.
\<close>

definition default_cli :: session where
  "default_cli = (init ''> '' ''1.0.0'')\<lparr>running := True\<rparr>"

section \<open>Properties of the lexer\<close>

lemma emit_nonempty: "emit tok r = Inr toks \<Longrightarrow> toks \<noteq> []"
  by (cases r) auto

text \<open>A token that has been started is emitted, unless the lexer fails.\<close>

lemma read_tokens_nonempty:
  "tok \<noteq> [] \<Longrightarrow> read_tokens st tok quoted cs = Inr toks \<Longrightarrow> toks \<noteq> []"
proof (induction st tok quoted cs arbitrary: toks rule: read_tokens.induct)
  case (1 tok quoted)
  then show ?case by auto
next
  case (2 tok quoted c cs)
  then show ?case by (auto split: if_splits dest: emit_nonempty)
next
  case (3 qc tok quoted)
  then show ?case by simp
next
  case (4 qc tok quoted c cs)
  then show ?case by (auto split: if_splits)
next
  case (5 es tok quoted)
  then show ?case by simp
next
  case (6 es tok quoted c cs)
  then show ?case by auto
next
  case (7 tok quoted)
  then show ?case by auto
next
  case (8 tok quoted c cs)
  then show ?case by (auto split: if_splits dest: emit_nonempty)
qed

lemma startswith_append: "startswith s p \<Longrightarrow> s = p @ drop (length p) s"
  unfolding startswith_def by (metis append_take_drop_id)

lemma startswith_nonempty: "startswith s ''python script.py'' \<Longrightarrow> s \<noteq> []"
  by (auto simp: startswith_def)

text \<open>
  A line that starts with \<open>python script.py\<close> has at least two tokens, the first of
  them \<open>python\<close>.
\<close>

lemma split_invocation:
  assumes "shlex_split (''python script.py'' @ rest) = Inr toks"
  shows "2 \<le> length toks \<and> hd toks = ''python''"
proof -
  from assms obtain toks2 where t: "toks = ''python'' # toks2"
    and r: "read_tokens St_word ''script.py'' False rest = Inr toks2"
    by (cases "read_tokens St_word ''script.py'' False rest")
       (auto simp: shlex_split_def whitespace_def quotes_def squote_def dquote_def backslash_def)
  from read_tokens_nonempty[OF _ r] have "toks2 \<noteq> []" by simp
  with t show ?thesis by (cases toks2) auto
qed

section \<open>Properties of the session loop\<close>

lemma dispatch_running: "running (fst (dispatch s args)) = running s"
  by (simp add: dispatch_def split: option.splits)

lemma handle_cli_args_running: "running (fst (handle_cli_args s args_str)) = running s"
  by (simp add: handle_cli_args_def dispatch_running split: sum.splits)

text \<open>Only \<open>exit\<close>, \<open>quit\<close> and the end of the input clear \<open>running\<close>.\<close>

lemma iteration_running:
  "\<not> is_exit i \<Longrightarrow> running (fst (iteration s (Some i))) = running s"
proof (cases i)
  case (Line l)
  assume "\<not> is_exit i"
  with Line show ?thesis
    using handle_cli_args_running[of s "strip l"]
    by (auto simp: Let_def split: prod.splits)
next
  case KeyboardInterrupt
  then show ?thesis by simp
qed

lemma run_loop_eof:
  "running s \<Longrightarrow> \<not> list_ex is_exit inputs \<Longrightarrow>
   \<not> running (fst (run_loop s inputs)) \<and>
   suffix (typewriter_effect (newline # ''Goodbye!'')) (snd (run_loop s inputs))"
proof (induction inputs arbitrary: s)
  case Nil
  then show ?case by (simp add: suffix_def)
next
  case (Cons i inputs)
  obtain s' out where it: "iteration s (Some i) = (s', out)" by (cases "iteration s (Some i)")
  from Cons.prems have ne: "\<not> is_exit i" and rest: "\<not> list_ex is_exit inputs" by auto
  from iteration_running[OF ne, of s] it Cons.prems(1) have r: "running s'" by simp
  from Cons.IH[OF r rest] have ih: "\<not> running (fst (run_loop s' inputs))"
    "suffix (typewriter_effect (newline # ''Goodbye!'')) (snd (run_loop s' inputs))" by auto
  obtain s'' out' where rl: "run_loop s' inputs = (s'', out')" by (cases "run_loop s' inputs")
  from ih rl have "\<not> running s''" "suffix (typewriter_effect (newline # ''Goodbye!'')) out'" by auto
  then have "\<not> running s''" "suffix (typewriter_effect (newline # ''Goodbye!'')) (out @ out')"
    by (auto simp: suffix_append)
  with it rl Cons.prems(1) show ?case by simp
qed

text \<open>
  The \<open>ValueError\<close> of \<open>shlex.split\<close> (a quote that is not closed, a backslash at the
  end) is the failure that reaches the \<open>except Exception\<close> branch of the handler.
\<close>

lemma tokenization_error_printed:
  "shlex_split line = Inl e \<Longrightarrow>
   handle_cli_args s line =
     (s, typewriter_effect (''Error parsing arguments: '' @ shlex_error_str e))"
  by (simp add: handle_cli_args_def)

text \<open>A pass that leaves the session as it is goes on with the rest of the inputs.\<close>

lemma run_loop_continue:
  "running s \<Longrightarrow> iteration s (Some i) = (s, out) \<Longrightarrow>
   run_loop s (i # inputs) = (fst (run_loop s inputs), out @ snd (run_loop s inputs))"
  by (simp add: split_beta)

section \<open>The claims\<close>

text \<open>
  C1 (as amended). A quoted invocation whose flags the parser rejects (an unknown flag, a
  flag that takes a value and has none) changes nothing and ends nothing: the parser
  writes its usage and its message to standard error and raises \<open>SystemExit\<close>, which
  \<open>handle_cli_args\<close> catches and passes over. Nothing is printed with the typewriter
  effect; the session (prompt, running, version) is the same; the loop goes on with the
  next input.
\<close>

theorem malformed_flags_passed_over:
  assumes "running s"
    and "startswith (strip l) ''python script.py''"
    and "shlex_split (strip l) = Inr toks"
    and "parse_args (drop 2 toks) = Inl err"
  shows "iteration s (Some (Line l)) =
           (s, Input_prompt (prompt s) # echo_input (strip l) @ [Usage_error err]) \<and>
         run_loop s (Line l # inputs) =
           (fst (run_loop s inputs),
            (Input_prompt (prompt s) # echo_input (strip l) @ [Usage_error err]) @
            snd (run_loop s inputs))"
proof -
  from assms(2) have ne: "strip l \<noteq> []" by (rule startswith_nonempty)
  from assms(3,4) have h: "handle_cli_args s (strip l) = (s, [Usage_error err])"
    by (simp add: handle_cli_args_def)
  from ne assms(2) h have it: "iteration s (Some (Line l)) =
      (s, Input_prompt (prompt s) # echo_input (strip l) @ [Usage_error err])"
    by (simp add: Let_def)
  from run_loop_continue[OF assms(1) it] it show ?thesis by simp
qed

theorem malformed_flags_passed_over_witness:
  "running default_cli \<and>
   startswith (strip ''python script.py --bogus'') ''python script.py'' \<and>
   shlex_split (strip ''python script.py --bogus'') = Inr [''python'', ''script.py'', ''--bogus''] \<and>
   parse_args (drop 2 [''python'', ''script.py'', ''--bogus'']) =
     Inl (Unrecognized_arguments [''--bogus'']) \<and>
   iteration default_cli (Some (Line ''python script.py --bogus'')) =
     (default_cli,
      Input_prompt (prompt default_cli) # echo_input (strip ''python script.py --bogus'') @
      [Usage_error (Unrecognized_arguments [''--bogus''])]) \<and>
   run_loop default_cli (Line ''python script.py --bogus'' # [Line ''help'']) =
     (fst (run_loop default_cli [Line ''help'']),
      (Input_prompt (prompt default_cli) # echo_input (strip ''python script.py --bogus'') @
       [Usage_error (Unrecognized_arguments [''--bogus''])]) @
      snd (run_loop default_cli [Line ''help'']))"
proof -
  have h1: "running default_cli" by code_simp
  have h2: "startswith (strip ''python script.py --bogus'') ''python script.py''" by code_simp
  have h3: "shlex_split (strip ''python script.py --bogus'') =
      Inr [''python'', ''script.py'', ''--bogus'']" by code_simp
  have h4: "parse_args (drop 2 [''python'', ''script.py'', ''--bogus'']) =
      Inl (Unrecognized_arguments [''--bogus''])" by code_simp
  note c = malformed_flags_passed_over[OF h1 h2 h3 h4, of "[Line ''help'']"]
  show ?thesis
    using h1 h2 h3 h4 c[THEN conjunct1] c[THEN conjunct2] by (intro conjI)
qed

text \<open>
  C1 as stated fails: on \<open>python script.py --bogus\<close> the parser fails, and the pass
  writes the prompt, the echo and the parser's own message; nothing goes through the
  typewriter effect (no \<open>Write\<close>, no \<open>Sleep\<close>).
\<close>

theorem malformed_flags_counterexample:
  "parse_args [''--bogus''] = Inl (Unrecognized_arguments [''--bogus'']) \<and>
   snd (iteration default_cli (Some (Line ''python script.py --bogus''))) =
     [Input_prompt ''> ''] @ echo_input ''python script.py --bogus'' @
     [Usage_error (Unrecognized_arguments [''--bogus''])] \<and>
   Sleep \<notin> set (snd (iteration default_cli (Some (Line ''python script.py --bogus''))))"
  by code_simp

text \<open>
  C2 (as amended). At startup, when the help flag is set the six usage lines are printed
  directly with \<open>print\<close>; when the version flag is set and the help flag is not, the
  version line is printed by \<open>show_version\<close>, through the typewriter effect. In both
  cases the process ends with exit code 0 and the session loop is never entered: the
  result does not depend on the inputs.
\<close>

theorem startup_help_version:
  assumes "parse_args argv = Inr args"
    and "arg_help args \<or> arg_version args"
  shows "main argv inputs =
           (if arg_help args then (map Print usage_lines, 0)
            else (typewriter_effect ''Interactive CLI Version 1.0.0'', 0))"
  using assms by (auto simp: main_def show_version_def init_def)

theorem startup_help_version_witness:
  "parse_args [''-v''] = Inr \<lparr>arg_help = False, arg_version = True, arg_prompt = None\<rparr> \<and>
   (arg_help \<lparr>arg_help = False, arg_version = True, arg_prompt = None\<rparr> \<or>
    arg_version \<lparr>arg_help = False, arg_version = True, arg_prompt = None\<rparr>) \<and>
   main [''-v''] [Line ''help''] =
     (if arg_help \<lparr>arg_help = False, arg_version = True, arg_prompt = None\<rparr>
      then (map Print usage_lines, 0)
      else (typewriter_effect ''Interactive CLI Version 1.0.0'', 0)) \<and>
   parse_args [''--help''] = Inr \<lparr>arg_help = True, arg_version = False, arg_prompt = None\<rparr> \<and>
   (arg_help \<lparr>arg_help = True, arg_version = False, arg_prompt = None\<rparr> \<or>
    arg_version \<lparr>arg_help = True, arg_version = False, arg_prompt = None\<rparr>) \<and>
   main [''--help''] [Line ''help''] =
     (if arg_help \<lparr>arg_help = True, arg_version = False, arg_prompt = None\<rparr>
      then (map Print usage_lines, 0)
      else (typewriter_effect ''Interactive CLI Version 1.0.0'', 0))"
proof -
  have v1: "parse_args [''-v''] = Inr \<lparr>arg_help = False, arg_version = True, arg_prompt = None\<rparr>"
    by code_simp
  have v2: "arg_help \<lparr>arg_help = False, arg_version = True, arg_prompt = None\<rparr> \<or>
    arg_version \<lparr>arg_help = False, arg_version = True, arg_prompt = None\<rparr>" by simp
  have h1: "parse_args [''--help''] = Inr \<lparr>arg_help = True, arg_version = False, arg_prompt = None\<rparr>"
    by code_simp
  have h2: "arg_help \<lparr>arg_help = True, arg_version = False, arg_prompt = None\<rparr> \<or>
    arg_version \<lparr>arg_help = True, arg_version = False, arg_prompt = None\<rparr>" by simp
  show ?thesis
    using v1 v2 startup_help_version[OF v1 v2, of "[Line ''help'']"]
      h1 h2 startup_help_version[OF h1 h2, of "[Line ''help'']"]
    by (intro conjI)
qed

text \<open>
  C2 as stated fails for the version flag: with the argument \<open>-v\<close> the output is not the
  line printed at once, it is the typewriter effect of that line, with a \<open>Sleep\<close> after
  each character.
\<close>

theorem startup_version_counterexample:
  "parse_args [''-v''] = Inr \<lparr>arg_help = False, arg_version = True, arg_prompt = None\<rparr> \<and>
   fst (main [''-v''] []) \<noteq> [Print ''Interactive CLI Version 1.0.0''] \<and>
   fst (main [''-v''] []) = typewriter_effect ''Interactive CLI Version 1.0.0'' \<and>
   Sleep \<in> set (fst (main [''-v''] [])) \<and>
   snd (main [''-v''] []) = 0"
  by code_simp

text \<open>
  C3 (as amended). A quoted invocation that parses with help and version unset and a
  prompt value that is present and not empty sets the session's prompt to that value and
  prints, with the typewriter effect, the confirmation that names the old and the new
  prompt.
\<close>

theorem prompt_changed:
  assumes "shlex_split line = Inr toks"
    and "parse_args (drop 2 toks) = Inr args"
    and "\<not> arg_help args" and "\<not> arg_version args"
    and "arg_prompt args = Some p" and "p \<noteq> []"
  shows "handle_cli_args s line =
           (s\<lparr>prompt := p\<rparr>,
            typewriter_effect (''Prompt changed from '' @ [squote] @ prompt s @ [squote] @
                               '' to '' @ [squote] @ p @ [squote]))"
  using assms by (simp add: handle_cli_args_def dispatch_def)

theorem prompt_changed_witness:
  "shlex_split (''python script.py -p '' @ [dquote] @ ''NEW> '' @ [dquote]) =
     Inr [''python'', ''script.py'', ''-p'', ''NEW> ''] \<and>
   parse_args (drop 2 [''python'', ''script.py'', ''-p'', ''NEW> '']) =
     Inr \<lparr>arg_help = False, arg_version = False, arg_prompt = Some ''NEW> ''\<rparr> \<and>
   \<not> arg_help \<lparr>arg_help = False, arg_version = False, arg_prompt = Some ''NEW> ''\<rparr> \<and>
   \<not> arg_version \<lparr>arg_help = False, arg_version = False, arg_prompt = Some ''NEW> ''\<rparr> \<and>
   arg_prompt \<lparr>arg_help = False, arg_version = False, arg_prompt = Some ''NEW> ''\<rparr> = Some ''NEW> '' \<and>
   ''NEW> '' \<noteq> [] \<and>
   handle_cli_args default_cli (''python script.py -p '' @ [dquote] @ ''NEW> '' @ [dquote]) =
     (default_cli\<lparr>prompt := ''NEW> ''\<rparr>,
      typewriter_effect (''Prompt changed from '' @ [squote] @ prompt default_cli @ [squote] @
                         '' to '' @ [squote] @ ''NEW> '' @ [squote]))"
proof -
  have h1: "shlex_split (''python script.py -p '' @ [dquote] @ ''NEW> '' @ [dquote]) =
     Inr [''python'', ''script.py'', ''-p'', ''NEW> '']" by code_simp
  have h2: "parse_args (drop 2 [''python'', ''script.py'', ''-p'', ''NEW> '']) =
     Inr \<lparr>arg_help = False, arg_version = False, arg_prompt = Some ''NEW> ''\<rparr>" by code_simp
  have h3: "\<not> arg_help \<lparr>arg_help = False, arg_version = False, arg_prompt = Some ''NEW> ''\<rparr>" by simp
  have h4: "\<not> arg_version \<lparr>arg_help = False, arg_version = False, arg_prompt = Some ''NEW> ''\<rparr>" by simp
  have h5: "arg_prompt \<lparr>arg_help = False, arg_version = False, arg_prompt = Some ''NEW> ''\<rparr> = Some ''NEW> ''" by simp
  have h6: "''NEW> '' \<noteq> []" by simp
  show ?thesis
    using h1 h2 h3 h4 h5 h6 prompt_changed[OF h1 h2 h3 h4 h5 h6, of default_cli] by (intro conjI)
qed

text \<open>
  C3 as stated fails for the empty prompt value: \<open>python script.py -p ""\<close> parses, with
  help and version unset and the empty string as the prompt value, and the handler
  leaves the prompt \<open>'> '\<close> as it is and prints nothing.
\<close>

theorem empty_prompt_counterexample:
  "shlex_split (''python script.py -p '' @ [dquote, dquote]) = Inr [''python'', ''script.py'', ''-p'', []] \<and>
   parse_args [''-p'', []] = Inr \<lparr>arg_help = False, arg_version = False, arg_prompt = Some []\<rparr> \<and>
   handle_cli_args default_cli (''python script.py -p '' @ [dquote, dquote]) = (default_cli, []) \<and>
   prompt default_cli = ''> ''"
  by code_simp

text \<open>
  C4 (as amended). After a successful parse at most one action fires, by the precedence
  help over version over prompt: if help is set the help text is printed; else if
  version is set the version line is printed; else if the prompt is set to a value that
  is not empty the prompt is changed; otherwise nothing happens. In particular a line
  that sets both help and version prints the help text only.
\<close>

theorem dispatch_precedence:
  assumes "shlex_split line = Inr toks"
    and "parse_args (drop 2 toks) = Inr args"
  shows "handle_cli_args s line =
           (if arg_help args then (s, show_help)
            else if arg_version args then (s, show_version s)
            else (case arg_prompt args of
                    None \<Rightarrow> (s, [])
                  | Some p \<Rightarrow>
                      if p = [] then (s, [])
                      else
                        (s\<lparr>prompt := p\<rparr>,
                         typewriter_effect (''Prompt changed from '' @ [squote] @ prompt s @ [squote] @
                                            '' to '' @ [squote] @ p @ [squote]))))"
  using assms by (simp add: handle_cli_args_def dispatch_def)

theorem dispatch_precedence_witness:
  "shlex_split ''python script.py -h -v'' = Inr [''python'', ''script.py'', ''-h'', ''-v''] \<and>
   parse_args (drop 2 [''python'', ''script.py'', ''-h'', ''-v'']) =
     Inr \<lparr>arg_help = True, arg_version = True, arg_prompt = None\<rparr> \<and>
   handle_cli_args default_cli ''python script.py -h -v'' = (default_cli, show_help)"
proof -
  have h1: "shlex_split ''python script.py -h -v'' = Inr [''python'', ''script.py'', ''-h'', ''-v'']"
    by code_simp
  have h2: "parse_args (drop 2 [''python'', ''script.py'', ''-h'', ''-v'']) =
     Inr \<lparr>arg_help = True, arg_version = True, arg_prompt = None\<rparr>" by code_simp
  from dispatch_precedence[OF h1 h2, of default_cli]
  have "handle_cli_args default_cli ''python script.py -h -v'' = (default_cli, show_help)"
    by simp
  with h1 h2 show ?thesis by (intro conjI)
qed

text \<open>
  C4 as stated fails in its last branch: \<open>python script.py --prompt ''\<close> parses with
  help and version unset and the prompt set (to the empty string), and the prompt is
  not changed: it stays \<open>'> '\<close>, and nothing is printed.
\<close>

theorem prompt_set_empty_counterexample:
  "shlex_split (''python script.py --prompt '' @ [squote, squote]) =
     Inr [''python'', ''script.py'', ''--prompt'', []] \<and>
   parse_args [''--prompt'', []] = Inr \<lparr>arg_help = False, arg_version = False, arg_prompt = Some []\<rparr> \<and>
   prompt (fst (handle_cli_args default_cli (''python script.py --prompt '' @ [squote, squote]))) = ''> '' \<and>
   snd (handle_cli_args default_cli (''python script.py --prompt '' @ [squote, squote])) = []"
  by code_simp

text \<open>
  C5. A line whose trimmed form is not empty, does not start with \<open>python script.py\<close>
  and, in lower case, is none of \<open>exit\<close>, \<open>quit\<close>, \<open>version\<close>, \<open>help\<close> is answered with
  exactly \<open>System: You said '<input>'\<close>, where \<open><input>\<close> is the trimmed line; the
  session is unchanged.
\<close>

theorem free_text_response:
  assumes "strip l \<noteq> []"
    and "\<not> startswith (strip l) ''python script.py''"
    and "lower (strip l) \<notin> {''exit'', ''quit'', ''version'', ''help''}"
  shows "iteration s (Some (Line l)) =
           (s, Input_prompt (prompt s) # echo_input (strip l) @
               typewriter_effect (''System: You said '' @ [squote] @ strip l @ [squote]))"
  using assms by (simp add: Let_def process_input_def)

theorem free_text_response_witness:
  "strip ''  Hello there  '' \<noteq> [] \<and>
   \<not> startswith (strip ''  Hello there  '') ''python script.py'' \<and>
   lower (strip ''  Hello there  '') \<notin> {''exit'', ''quit'', ''version'', ''help''} \<and>
   iteration default_cli (Some (Line ''  Hello there  '')) =
     (default_cli, Input_prompt (prompt default_cli) # echo_input (strip ''  Hello there  '') @
        typewriter_effect (''System: You said '' @ [squote] @ strip ''  Hello there  '' @ [squote]))"
proof -
  have h1: "strip ''  Hello there  '' \<noteq> []" by code_simp
  have h2: "\<not> startswith (strip ''  Hello there  '') ''python script.py''" by code_simp
  have h3: "lower (strip ''  Hello there  '') \<notin> {''exit'', ''quit'', ''version'', ''help''}" by code_simp
  show ?thesis
    using h1 h2 h3 free_text_response[OF h1 h2 h3, of default_cli] by (intro conjI)
qed

text \<open>
  C6. A quoted invocation is split by \<open>shlex.split\<close>; it has at least two tokens, the
  first of them \<open>python\<close>, and exactly the first two are dropped: the parser is run on
  the tokens from the third on, and the handler does what the parser's result says.
\<close>

theorem first_two_tokens_dropped:
  assumes "startswith line ''python script.py''"
    and "shlex_split line = Inr toks"
  shows "2 \<le> length toks \<and> hd toks = ''python'' \<and>
         handle_cli_args s line =
           (case parse_args (drop 2 toks) of
              Inl err \<Rightarrow> (s, [Usage_error err])
            | Inr args \<Rightarrow> dispatch s args)"
proof -
  from startswith_append[OF assms(1)] assms(2)
  have "shlex_split (''python script.py'' @ drop (length ''python script.py'') line) = Inr toks"
    by simp
  from split_invocation[OF this] have "2 \<le> length toks \<and> hd toks = ''python''" .
  moreover from assms(2) have "handle_cli_args s line =
           (case parse_args (drop 2 toks) of
              Inl err \<Rightarrow> (s, [Usage_error err])
            | Inr args \<Rightarrow> dispatch s args)"
    by (simp add: handle_cli_args_def)
  ultimately show ?thesis by simp
qed

theorem first_two_tokens_dropped_witness:
  "startswith ''python script.py-h -v'' ''python script.py'' \<and>
   shlex_split ''python script.py-h -v'' = Inr [''python'', ''script.py-h'', ''-v''] \<and>
   2 \<le> length [''python'', ''script.py-h'', ''-v''] \<and>
   hd [''python'', ''script.py-h'', ''-v''] = ''python'' \<and>
   handle_cli_args default_cli ''python script.py-h -v'' =
     (case parse_args (drop 2 [''python'', ''script.py-h'', ''-v'']) of
        Inl err \<Rightarrow> (default_cli, [Usage_error err])
      | Inr args \<Rightarrow> dispatch default_cli args)"
proof -
  have h1: "startswith ''python script.py-h -v'' ''python script.py''" by code_simp
  have h2: "shlex_split ''python script.py-h -v'' = Inr [''python'', ''script.py-h'', ''-v'']"
    by code_simp
  note c = first_two_tokens_dropped[OF h1 h2, of default_cli]
  show ?thesis
    using h1 h2 c[THEN conjunct1] c[THEN conjunct2, THEN conjunct1]
      c[THEN conjunct2, THEN conjunct2]
    by (intro conjI)
qed

text \<open>
  C7. A line that is empty once trimmed is skipped: the pass writes only the prompt of
  \<open>input\<close>, with no echo and no response, the session (prompt, running, version) is
  unchanged, and the loop goes on with the next input.
\<close>

theorem blank_line_skipped:
  assumes "running s" and "strip l = []"
  shows "iteration s (Some (Line l)) = (s, [Input_prompt (prompt s)]) \<and>
         run_loop s (Line l # inputs) =
           (fst (run_loop s inputs), [Input_prompt (prompt s)] @ snd (run_loop s inputs))"
proof -
  from assms(2) have it: "iteration s (Some (Line l)) = (s, [Input_prompt (prompt s)])"
    by simp
  from run_loop_continue[OF assms(1) it] it show ?thesis by simp
qed

theorem blank_line_skipped_witness:
  "running default_cli \<and> strip ('' '' @ [CHR 0x09] @ ''  '') = [] \<and>
   iteration default_cli (Some (Line ('' '' @ [CHR 0x09] @ ''  ''))) =
     (default_cli, [Input_prompt (prompt default_cli)]) \<and>
   run_loop default_cli (Line ('' '' @ [CHR 0x09] @ ''  '') # [Line ''quit'']) =
     (fst (run_loop default_cli [Line ''quit'']),
      [Input_prompt (prompt default_cli)] @ snd (run_loop default_cli [Line ''quit'']))"
proof -
  have h1: "running default_cli" by code_simp
  have h2: "strip ('' '' @ [CHR 0x09] @ ''  '') = []" by code_simp
  note c = blank_line_skipped[OF h1 h2, of "[Line ''quit'']"]
  show ?thesis using h1 h2 c[THEN conjunct1] c[THEN conjunct2] by (intro conjI)
qed

text \<open>
  C8. When the inputs end with no \<open>exit\<close> or \<open>quit\<close> before, the session ends with
  \<open>running\<close> false and the farewell is the last thing printed; started from arguments
  that set neither help nor version, the process prints the farewell last and ends
  with status 0.
\<close>

theorem end_of_input_farewell:
  assumes "\<not> list_ex is_exit inputs"
    and "parse_args argv = Inr args"
    and "\<not> arg_help args" and "\<not> arg_version args"
  shows "\<not> running (fst (start s inputs)) \<and>
         suffix (typewriter_effect (newline # ''Goodbye!'')) (snd (start s inputs)) \<and>
         suffix (typewriter_effect (newline # ''Goodbye!'')) (fst (main argv inputs)) \<and>
         snd (main argv inputs) = 0"
proof -
  have st: "\<not> running (fst (start s' inputs)) \<and>
      suffix (typewriter_effect (newline # ''Goodbye!'')) (snd (start s' inputs))" for s'
  proof -
    have "running (s'\<lparr>running := True\<rparr>)" by simp
    from run_loop_eof[OF this assms(1)] show ?thesis
      by (simp add: start_def split_beta suffix_append)
  qed
  define cli where "cli = (case arg_prompt args of
      None \<Rightarrow> init ''> '' ''1.0.0''
    | Some p \<Rightarrow> if p = [] then init ''> '' ''1.0.0'' else (init ''> '' ''1.0.0'')\<lparr>prompt := p\<rparr>)"
  from assms(2-4) have m: "main argv inputs = (snd (start cli inputs), 0)"
    by (simp add: main_def Let_def split_beta cli_def)
  from st[of s] st[of cli] m show ?thesis by simp
qed

theorem end_of_input_farewell_witness:
  "\<not> list_ex is_exit [Line ''hello'', KeyboardInterrupt] \<and>
   parse_args [''-p'', ''** ''] = Inr \<lparr>arg_help = False, arg_version = False, arg_prompt = Some ''** ''\<rparr> \<and>
   \<not> arg_help \<lparr>arg_help = False, arg_version = False, arg_prompt = Some ''** ''\<rparr> \<and>
   \<not> arg_version \<lparr>arg_help = False, arg_version = False, arg_prompt = Some ''** ''\<rparr> \<and>
   \<not> running (fst (start (init ''> '' ''1.0.0'') [Line ''hello'', KeyboardInterrupt])) \<and>
   suffix (typewriter_effect (newline # ''Goodbye!''))
     (snd (start (init ''> '' ''1.0.0'') [Line ''hello'', KeyboardInterrupt])) \<and>
   suffix (typewriter_effect (newline # ''Goodbye!''))
     (fst (main [''-p'', ''** ''] [Line ''hello'', KeyboardInterrupt])) \<and>
   snd (main [''-p'', ''** ''] [Line ''hello'', KeyboardInterrupt]) = 0"
proof -
  have h1: "\<not> list_ex is_exit [Line ''hello'', KeyboardInterrupt]" by code_simp
  have h2: "parse_args [''-p'', ''** ''] =
     Inr \<lparr>arg_help = False, arg_version = False, arg_prompt = Some ''** ''\<rparr>" by code_simp
  have h3: "\<not> arg_help \<lparr>arg_help = False, arg_version = False, arg_prompt = Some ''** ''\<rparr>" by simp
  have h4: "\<not> arg_version \<lparr>arg_help = False, arg_version = False, arg_prompt = Some ''** ''\<rparr>" by simp
  note c = end_of_input_farewell[OF h1 h2 h3 h4, of "init ''> '' ''1.0.0''"]
  show ?thesis
    using h1 h2 h3 h4 c[THEN conjunct1] c[THEN conjunct2, THEN conjunct1]
      c[THEN conjunct2, THEN conjunct2, THEN conjunct1]
      c[THEN conjunct2, THEN conjunct2, THEN conjunct2]
    by (intro conjI)
qed

text \<open>
  C9. A \<open>KeyboardInterrupt\<close> raised while \<open>input\<close> waits does not end the session: the
  hint to use \<open>exit\<close> or \<open>quit\<close> is printed, the session is unchanged (\<open>running\<close> stays
  true), and the loop goes on with the next input.
\<close>

theorem interrupt_continues:
  assumes "running s"
  shows "iteration s (Some KeyboardInterrupt) =
           (s, Input_prompt (prompt s) #
               typewriter_effect (newline # ''Use 'exit' or 'quit' to end the session.'')) \<and>
         run_loop s (KeyboardInterrupt # inputs) =
           (fst (run_loop s inputs),
            (Input_prompt (prompt s) #
             typewriter_effect (newline # ''Use 'exit' or 'quit' to end the session.'')) @
            snd (run_loop s inputs))"
proof -
  have it: "iteration s (Some KeyboardInterrupt) =
           (s, Input_prompt (prompt s) #
               typewriter_effect (newline # ''Use 'exit' or 'quit' to end the session.''))"
    by simp
  from run_loop_continue[OF assms it] it show ?thesis by simp
qed

theorem interrupt_continues_witness:
  "running default_cli \<and>
   iteration default_cli (Some KeyboardInterrupt) =
     (default_cli, Input_prompt (prompt default_cli) #
        typewriter_effect (newline # ''Use 'exit' or 'quit' to end the session.'')) \<and>
   run_loop default_cli (KeyboardInterrupt # [Line ''version'']) =
     (fst (run_loop default_cli [Line ''version'']),
      (Input_prompt (prompt default_cli) #
       typewriter_effect (newline # ''Use 'exit' or 'quit' to end the session.'')) @
      snd (run_loop default_cli [Line ''version'']))"
proof -
  have h1: "running default_cli" by code_simp
  note c = interrupt_continues[OF h1, of "[Line ''version'']"]
  show ?thesis using h1 c[THEN conjunct1] c[THEN conjunct2] by (intro conjI)
qed

text \<open>
  C10. A quoted invocation whose tokens after the first two parse and set none of help,
  version and prompt (the bare \<open>python script.py\<close>, for one) makes the handler print
  nothing and leave the session unchanged.
\<close>

theorem no_flag_no_output:
  assumes "shlex_split line = Inr toks"
    and "parse_args (drop 2 toks) = Inr args"
    and "\<not> arg_help args" and "\<not> arg_version args" and "arg_prompt args = None"
  shows "handle_cli_args s line = (s, [])"
  using assms by (simp add: handle_cli_args_def dispatch_def)

theorem no_flag_no_output_witness:
  "shlex_split ''python script.py'' = Inr [''python'', ''script.py''] \<and>
   parse_args (drop 2 [''python'', ''script.py'']) =
     Inr \<lparr>arg_help = False, arg_version = False, arg_prompt = None\<rparr> \<and>
   \<not> arg_help \<lparr>arg_help = False, arg_version = False, arg_prompt = None\<rparr> \<and>
   \<not> arg_version \<lparr>arg_help = False, arg_version = False, arg_prompt = None\<rparr> \<and>
   arg_prompt \<lparr>arg_help = False, arg_version = False, arg_prompt = None\<rparr> = None \<and>
   handle_cli_args default_cli ''python script.py'' = (default_cli, [])"
proof -
  have h1: "shlex_split ''python script.py'' = Inr [''python'', ''script.py'']" by code_simp
  have h2: "parse_args (drop 2 [''python'', ''script.py'']) =
     Inr \<lparr>arg_help = False, arg_version = False, arg_prompt = None\<rparr>" by code_simp
  have h3: "\<not> arg_help \<lparr>arg_help = False, arg_version = False, arg_prompt = None\<rparr>" by simp
  have h4: "\<not> arg_version \<lparr>arg_help = False, arg_version = False, arg_prompt = None\<rparr>" by simp
  have h5: "arg_prompt \<lparr>arg_help = False, arg_version = False, arg_prompt = None\<rparr> = None" by simp
  show ?thesis
    using h1 h2 h3 h4 h5 no_flag_no_output[OF h1 h2 h3 h4 h5, of default_cli] by (intro conjI)
qed

end
